theory Spec2Isabelle
  imports Main "HOL-Library.Word" "HOL-Library.List_Lexorder"
begin

unbundle bit_operations_syntax

section \<open>Bytes, strings and the constants of tree3.h\<close>

text \<open>
  A \<open>std::string\<close> and a \<open>string_view\<close> are the list of their bytes; embedded zero bytes are
  ordinary elements. \<open>std::string::compare\<close> compares byte by byte as unsigned values and
  then by length; only the sign of its result is used by the engine.
\<close>

type_synonym byte = "8 word"
type_synonym str = "byte list"

fun compare :: "str \<Rightarrow> str \<Rightarrow> int" where
  "compare [] [] = 0"
| "compare [] (y # ys) = - 1"
| "compare (x # xs) [] = 1"
| "compare (x # xs) (y # ys) = (if x < y then - 1 else if y < x then 1 else compare xs ys)"

definition INNER_KEYS :: nat where
  "INNER_KEYS = 4"

definition INNER_KEYS_MIDPOINT :: nat where
  "INNER_KEYS_MIDPOINT = INNER_KEYS div 2"

definition INNER_KEYS_UPPER :: nat where
  "INNER_KEYS_UPPER = INNER_KEYS div 2 + 1"

definition LEAF_KEYS :: nat where
  "LEAF_KEYS = 48"

definition LEAF_KEYS_MIDPOINT :: nat where
  "LEAF_KEYS_MIDPOINT = LEAF_KEYS div 2"

datatype status = OK | NOT_FOUND | FAILED

datatype pm_error = bad_alloc | transaction_alloc_error | transaction_error

section \<open>Pearson hash\<close>

definition PEARSON_LOOKUP_TABLE :: "byte list" where
  "PEARSON_LOOKUP_TABLE = [
    251, 175, 119, 215, 81,  14,  79,  191, 103, 49,  181, 143, 186, 157, 0,   232,
    31,  32,  55,  60,  152, 58,  17,  237, 174, 70,  160, 144, 220, 90,  57,  223,
    59,  3,   18,  140, 111, 166, 203, 196, 134, 243, 124, 95,  222, 179, 197, 65,
    180, 48,  36,  15,  107, 46,  233, 130, 165, 30,  123, 161, 209, 23,  97,  16,
    40,  91,  219, 61,  100, 10,  210, 109, 250, 127, 22,  138, 29,  108, 244, 67,
    207, 9,   178, 204, 74,  98,  126, 249, 167, 116, 34,  77,  193, 200, 121, 5,
    20,  113, 71,  35,  128, 13,  182, 94,  25,  226, 227, 199, 75,  27,  41,  245,
    230, 224, 43,  225, 177, 26,  155, 150, 212, 142, 218, 115, 241, 73,  88,  105,
    39,  114, 62,  255, 192, 201, 145, 214, 168, 158, 221, 148, 154, 122, 12,  84,
    82,  163, 44,  139, 228, 236, 205, 242, 217, 11,  187, 146, 159, 64,  86,  239,
    195, 42,  106, 198, 118, 112, 184, 172, 87,  2,   173, 117, 176, 229, 247, 253,
    137, 185, 99,  164, 102, 147, 45,  66,  231, 52,  141, 211, 194, 206, 246, 238,
    56,  110, 78,  248, 63,  240, 189, 93,  92,  51,  53,  183, 19,  171, 72,  50,
    33,  104, 101, 69,  8,   252, 83,  120, 76,  135, 85,  54,  202, 125, 188, 213,
    96,  235, 136, 208, 162, 129, 190, 132, 156, 38,  47,  1,   7,   254, 24,  4,
    216, 131, 89,  21,  28,  133, 37,  153, 149, 80,  170, 68,  6,   169, 234, 151]"

text \<open>
  \<open>PEARSON_LOOKUP_TABLE[idx]\<close> for an \<open>int\<close> index: the array has 256 entries, and a read
  outside it has no defined result (\<open>None\<close>).
\<close>

definition table_at :: "int \<Rightarrow> byte option" where
  "table_at idx =
     (if 0 \<le> idx \<and> idx < 256 then Some (PEARSON_LOOKUP_TABLE ! nat idx) else None)"

text \<open>
  The loop \<open>for (size_t i = size; i > 0;) hash = PEARSON_LOOKUP_TABLE[hash ^ data[--i]]\<close>.
  \<open>hash\<close> is a \<open>uint8_t\<close> and \<open>data[--i]\<close> a plain \<open>char\<close>; both are promoted to
  \<open>int\<close> before \<open>^\<close>. Plain \<open>char\<close> is signed on the x86-64 ABI the pool library targets,
  so the promoted character is \<open>sint\<close> of the byte.
\<close>

fun PearsonHash_loop :: "str \<Rightarrow> nat \<Rightarrow> byte \<Rightarrow> byte option" where
  "PearsonHash_loop data 0 hash = Some hash"
| "PearsonHash_loop data (Suc i) hash =
     (case table_at (uint hash XOR sint (data ! i)) of
        None \<Rightarrow> None
      | Some h \<Rightarrow> PearsonHash_loop data i h)"

definition PearsonHash :: "str \<Rightarrow> byte option" where
  "PearsonHash data =
     (case PearsonHash_loop data (length data) (word_of_nat (length data)) of
        None \<Rightarrow> None
      | Some hash \<Rightarrow> Some (if hash = 0 then 1 else hash))"

text \<open>
  The algorithm in the words of the specification: start from the length as a byte, fold
  \<open>h = TABLE[h ^ b]\<close> over the bytes from the last to the first, map 0 to 1.
\<close>

definition pearson_spec :: "str \<Rightarrow> byte" where
  "pearson_spec data =
     (let h = fold (\<lambda>b h. PEARSON_LOOKUP_TABLE ! unat (h XOR b)) (rev data)
                (word_of_nat (length data))
      in if h = 0 then 1 else h)"

section \<open>Slot payloads (class KVSlot)\<close>

text \<open>
  A slot holds \<open>persistent_ptr<char[]> kv\<close>: \<open>None\<close> is the null pointer, \<open>Some p\<close> the
  buffer it owns. The \<open>uint32_t\<close> fields are stored in the machine's byte order
  (little-endian).
\<close>

type_synonym KVSlot = "byte list option"

definition le32 :: "32 word \<Rightarrow> byte list" where
  "le32 w = [ucast w, ucast (drop_bit 8 w), ucast (drop_bit 16 w), ucast (drop_bit 24 w)]"

definition rd32 :: "byte list \<Rightarrow> nat \<Rightarrow> 32 word" where
  "rd32 p off =
     ucast (p ! off) OR push_bit 8 (ucast (p ! (off + 1)))
       OR push_bit 16 (ucast (p ! (off + 2))) OR push_bit 24 (ucast (p ! (off + 3)))"

text \<open>\<open>memcpy(p + off, src, n)\<close> into a buffer that is long enough.\<close>

definition memcpy :: "byte list \<Rightarrow> nat \<Rightarrow> byte list \<Rightarrow> byte list" where
  "memcpy p off src = take off p @ src @ drop (off + length src) p"

definition get_ks :: "byte list \<Rightarrow> 32 word" where
  "get_ks p = rd32 p 0"

definition get_vs :: "byte list \<Rightarrow> 32 word" where
  "get_vs p = rd32 p 4"

definition get_ph :: "byte list \<Rightarrow> byte" where
  "get_ph p = p ! (4 + 4)"

definition set_ph_direct :: "byte list \<Rightarrow> byte \<Rightarrow> byte list" where
  "set_ph_direct p v = p[4 + 4 := v]"

definition set_ks_direct :: "byte list \<Rightarrow> 32 word \<Rightarrow> byte list" where
  "set_ks_direct p v = memcpy p 0 (le32 v)"

definition set_vs_direct :: "byte list \<Rightarrow> 32 word \<Rightarrow> byte list" where
  "set_vs_direct p v = memcpy p 4 (le32 v)"

definition KVSlot_hash :: "byte list \<Rightarrow> byte" where
  "KVSlot_hash p = get_ph p"

text \<open>\<open>key()\<close> and \<open>val()\<close> return pointers into the buffer: the bytes from that offset on.\<close>

definition KVSlot_key :: "byte list \<Rightarrow> byte list" where
  "KVSlot_key p = drop (1 + 4 + 4) p"

definition KVSlot_val :: "byte list \<Rightarrow> byte list" where
  "KVSlot_val p = drop (1 + 4 + 4 + unat (get_ks p) + 1) p"

definition KVSlot_valsize :: "byte list \<Rightarrow> 32 word" where
  "KVSlot_valsize p = get_vs p"

text \<open>The bytes a callee reads from a pointer and a length.\<close>

definition bytes_at :: "byte list \<Rightarrow> 32 word \<Rightarrow> str" where
  "bytes_at ptr n = take (unat n) ptr"

definition KVSlot_empty :: "KVSlot \<Rightarrow> bool" where
  "KVSlot_empty kv = (case kv of Some p \<Rightarrow> False | None \<Rightarrow> True)"

text \<open>
  The pool is the list of its leaves in the order they were allocated, and the number of
  bytes still free. A \<open>persistent_ptr<KVLeaf>\<close> is the index of the leaf in that list. Every
  leaf is linked in front of the list when it is allocated and never unlinked, so
  \<open>root->head\<close> is the last leaf allocated and \<open>next\<close> of a leaf is the one allocated before
  it: the walk \<open>leaf = root->head; while (leaf) { ...; leaf = leaf->next; }\<close> visits the
  leaves from the last index down to 0. \<open>make_persistent\<close> throws \<open>transaction_alloc_error\<close> when the pool has not enough
  free bytes, and value-initialises what it allocates (zero bytes, null pointers).
\<close>

record KVLeaf =
  slots :: "KVSlot list"

record pool =
  heap :: "KVLeaf list"
  avail :: nat

definition sizeof_KVLeaf :: nat where
  "sizeof_KVLeaf = LEAF_KEYS * 16 + 16"

definition make_persistent_chars :: "nat \<Rightarrow> nat \<Rightarrow> pm_error + byte list \<times> nat" where
  "make_persistent_chars n av =
     (if n \<le> av then Inr (replicate n 0, av - n) else Inl transaction_alloc_error)"

text \<open>
  \<open>make_persistent<KVLeaf>()\<close> followed by \<open>root->head = new_leaf; new_leaf->next = old_head\<close>.
\<close>

definition make_persistent_KVLeaf :: "pool \<Rightarrow> pm_error + nat \<times> pool" where
  "make_persistent_KVLeaf pm =
     (if sizeof_KVLeaf \<le> avail pm
      then Inr (length (heap pm),
                pm\<lparr>heap := heap pm @ [\<lparr>slots = replicate LEAF_KEYS None\<rparr>],
                   avail := avail pm - sizeof_KVLeaf\<rparr>)
      else Inl transaction_alloc_error)"

text \<open>\<open>KVSlot::clear\<close> and \<open>KVSlot::set\<close> on a slot and the free byte count.\<close>

definition KVSlot_clear :: "KVSlot \<times> nat \<Rightarrow> KVSlot \<times> nat" where
  "KVSlot_clear = (\<lambda>(kv, av).
     case kv of
       Some p \<Rightarrow>
         (let p1 = set_ph_direct p 0;
              p2 = set_ks_direct p1 0;
              p3 = set_vs_direct p2 0
          in (None, av + length p3))
     | None \<Rightarrow> (None, av))"

definition KVSlot_set :: "byte \<Rightarrow> str \<Rightarrow> str \<Rightarrow> KVSlot \<times> nat \<Rightarrow> pm_error + KVSlot \<times> nat" where
  "KVSlot_set hash key value = (\<lambda>(kv, av).
     let av1 = (case kv of Some p \<Rightarrow> av + length p | None \<Rightarrow> av);
         ksize = length key;
         vsize = length value;
         size = ksize + vsize + 2 + 4 + 4 + 1
     in case make_persistent_chars size av1 of
          Inl e \<Rightarrow> Inl e
        | Inr (p, av2) \<Rightarrow>
            (let p1 = set_ph_direct p hash;
                 p2 = set_ks_direct p1 (word_of_nat ksize);
                 p3 = set_vs_direct p2 (word_of_nat vsize);
                 kvptr = 4 + 4 + 1;
                 p4 = memcpy p3 kvptr key;
                 kvptr' = kvptr + (ksize + 1);
                 p5 = memcpy p4 kvptr' value
             in Inr (Some p5, av2)))"

text \<open>
  A pool transaction: \<open>transaction::run(pmpool, body)\<close>. The body returns what it did to
  volatile memory, the exception it threw (if any) and the pool as it left it; when it threw,
  the transaction aborts and the pool is as it was before, while the volatile writes stay.
\<close>

definition transaction_run ::
  "pool \<Rightarrow> (pool \<Rightarrow> 'v \<times> pm_error option \<times> pool) \<Rightarrow> 'v \<times> pm_error option \<times> pool" where
  "transaction_run pm body =
     (case body pm of
        (v, Some e, pm') \<Rightarrow> (v, Some e, pm)
      | (v, None, pm') \<Rightarrow> (v, None, pm'))"

section \<open>Volatile index nodes\<close>

text \<open>
  \<open>KVLeafNode\<close> and \<open>KVInnerNode\<close> are the two classes derived from \<open>KVNode\<close>. An inner node
  owns its children (\<open>unique_ptr\<close>), so the nodes form a tree below \<open>tree_top\<close>. Of the
  arrays \<open>keys[INNER_KEYS + 1]\<close> and \<open>children[INNER_KEYS + 2]\<close> of an inner node only the
  entries below \<open>keycount\<close> (respectively up to \<open>keycount\<close>) are ever read; the lists hold
  those entries. A raw pointer to a node is the list of child indices that leads to it from
  \<open>tree_top\<close>, and \<open>node->parent\<close> is that list without its last index.
\<close>

datatype KVNode =
    is_leaf: KVLeafNode (hashes: "byte list") (keys: "str list") (leaf: nat)
  | KVInnerNode (keycount: nat) (keys: "str list") (children: "KVNode list")

record tree3 =
  leaves_prealloc :: "nat list"
  pmpool :: pool
  tree_top :: "KVNode option"

fun node_at :: "KVNode \<Rightarrow> nat list \<Rightarrow> KVNode option" where
  "node_at n [] = Some n"
| "node_at n (i # p) =
     (case n of
        KVLeafNode hs ks a \<Rightarrow> None
      | KVInnerNode c ks cs \<Rightarrow> if i < length cs then node_at (cs ! i) p else None)"

fun update_at :: "KVNode \<Rightarrow> nat list \<Rightarrow> KVNode \<Rightarrow> KVNode" where
  "update_at n [] m = m"
| "update_at n (i # p) m =
     (case n of
        KVLeafNode hs ks a \<Rightarrow> n
      | KVInnerNode c ks cs \<Rightarrow> KVInnerNode c ks (cs[i := update_at (cs ! i) p m]))"

lemma size_child:
  "\<not> is_leaf node \<Longrightarrow> i < length (children node) \<Longrightarrow> size (children node ! i) < size node"
proof -
  assume leaf: "\<not> is_leaf node" and i: "i < length (children node)"
  then have "children node ! i \<in> set (children node)"
    by simp
  then have "size (children node ! i) \<le> size_list size (children node)"
    by (simp add: size_list_estimation')
  with leaf show ?thesis
    by (cases node) simp_all
qed

text \<open>\<open>new KVLeafNode()\<close> with its \<open>leaf\<close> pointer set: zero hashes and empty keys.\<close>

definition new_KVLeafNode :: "nat \<Rightarrow> KVNode" where
  "new_KVLeafNode a = KVLeafNode (replicate LEAF_KEYS 0) (replicate LEAF_KEYS []) a"

subsection \<open>LeafSearch\<close>

text \<open>
  The \<open>for\<close> loop of \<open>LeafSearch\<close> over the routing keys of one inner node: \<open>Some idx\<close> when it
  leaves with \<open>matched\<close> at \<open>idx\<close>, \<open>None\<close> when it runs to \<open>keycount\<close> without a match.
\<close>

function LeafSearch_for :: "str \<Rightarrow> KVNode \<Rightarrow> nat \<Rightarrow> nat option" where
  "LeafSearch_for key inner idx =
     (if idx < keycount inner
      then (if compare key (keys inner ! idx) \<le> 0 then Some idx
            else LeafSearch_for key inner (idx + 1))
      else None)"
  by pat_completeness auto
termination
  by (relation "measure (\<lambda>(key, inner, idx). keycount inner - idx)") auto

declare LeafSearch_for.simps [simp del]

text \<open>
  The \<open>while (!node->is_leaf)\<close> loop. The result is the pointer to the leaf node reached;
  \<open>None\<close> when the loop would dereference a child that is not there.
\<close>

function LeafSearch_while :: "str \<Rightarrow> KVNode \<Rightarrow> nat list option" where
  "LeafSearch_while key node =
     (if is_leaf node then Some []
      else
        (let i = (case LeafSearch_for key node 0 of Some idx \<Rightarrow> idx | None \<Rightarrow> keycount node)
         in if i < length (children node)
            then map_option ((#) i) (LeafSearch_while key (children node ! i))
            else None))"
  by pat_completeness auto
termination
  by (relation "measure (\<lambda>(key, node). size node)") (simp_all add: size_child)

declare LeafSearch_while.simps [simp del]

text \<open>
  \<open>LeafSearch\<close>: the outer \<open>None\<close> is undefined behaviour, \<open>Some None\<close> the null pointer
  returned for an empty tree.
\<close>

definition LeafSearch :: "KVNode option \<Rightarrow> str \<Rightarrow> nat list option option" where
  "LeafSearch ttop key =
     (case ttop of
        None \<Rightarrow> Some None
      | Some node \<Rightarrow> map_option Some (LeafSearch_while key node))"

text \<open>Reading and writing a node through a pointer.\<close>

definition deref :: "tree3 \<Rightarrow> nat list \<Rightarrow> KVNode option" where
  "deref s p = (case tree_top s of None \<Rightarrow> None | Some ttop \<Rightarrow> node_at ttop p)"

definition store :: "tree3 \<Rightarrow> nat list \<Rightarrow> KVNode \<Rightarrow> tree3" where
  "store s p n = s\<lparr>tree_top := map_option (\<lambda>ttop. update_at ttop p n) (tree_top s)\<rparr>"

subsection \<open>Read-only operations\<close>

text \<open>
  The scan \<open>for (int slot = LEAF_KEYS; slot--;)\<close> of \<open>exists\<close>, \<open>get\<close> and \<open>remove\<close> for the
  slot whose hash and key match.
\<close>

fun match_slot :: "KVNode \<Rightarrow> byte \<Rightarrow> str \<Rightarrow> nat \<Rightarrow> nat option" where
  "match_slot leafnode hash key 0 = None"
| "match_slot leafnode hash key (Suc slot) =
     (if hashes leafnode ! slot = hash \<and> compare (keys leafnode ! slot) key = 0
      then Some slot
      else match_slot leafnode hash key slot)"

text \<open>
  Every operation returns its result and the state of the engine afterwards; \<open>None\<close> is
  undefined behaviour (a table read out of bounds, a null pointer dereferenced). The result
  of \<open>get\<close>, \<open>all\<close> and \<open>each\<close> lists the arguments of the callback invocations in order.
\<close>

definition exists :: "str \<Rightarrow> tree3 \<Rightarrow> (status \<times> tree3) option" where
  "exists key s =
     (case LeafSearch (tree_top s) key of
        None \<Rightarrow> None
      | Some None \<Rightarrow> Some (NOT_FOUND, s)
      | Some (Some p) \<Rightarrow>
          (case deref s p of
             None \<Rightarrow> None
           | Some leafnode \<Rightarrow>
               (case PearsonHash key of
                  None \<Rightarrow> None
                | Some hash \<Rightarrow>
                    (case match_slot leafnode hash key LEAF_KEYS of
                       Some slot \<Rightarrow> Some (OK, s)
                     | None \<Rightarrow> Some (NOT_FOUND, s)))))"

definition get :: "str \<Rightarrow> tree3 \<Rightarrow> ((status \<times> str list) \<times> tree3) option" where
  "get key s =
     (case LeafSearch (tree_top s) key of
        None \<Rightarrow> None
      | Some None \<Rightarrow> Some ((NOT_FOUND, []), s)
      | Some (Some p) \<Rightarrow>
          (case deref s p of
             None \<Rightarrow> None
           | Some leafnode \<Rightarrow>
               (case PearsonHash key of
                  None \<Rightarrow> None
                | Some hash \<Rightarrow>
                    (case match_slot leafnode hash key LEAF_KEYS of
                       Some slot \<Rightarrow>
                         (case slots (heap (pmpool s) ! leaf leafnode) ! slot of
                            None \<Rightarrow> None
                          | Some kv \<Rightarrow>
                              Some ((OK, [bytes_at (KVSlot_val kv) (KVSlot_valsize kv)]), s))
                     | None \<Rightarrow> Some ((NOT_FOUND, []), s)))))"

fun count_slots :: "KVLeaf \<Rightarrow> nat \<Rightarrow> nat" where
  "count_slots lf 0 = 0"
| "count_slots lf (Suc slot) =
     (case slots lf ! slot of
        None \<Rightarrow> count_slots lf slot
      | Some kv \<Rightarrow> if KVSlot_hash kv = 0 then count_slots lf slot else 1 + count_slots lf slot)"

fun count_walk :: "pool \<Rightarrow> nat \<Rightarrow> nat" where
  "count_walk pm 0 = 0"
| "count_walk pm (Suc a) = count_slots (heap pm ! a) LEAF_KEYS + count_walk pm a"

definition count :: "tree3 \<Rightarrow> (status \<times> nat) \<times> tree3" where
  "count s = ((OK, count_walk (pmpool s) (length (heap (pmpool s)))), s)"

fun all_slots :: "KVLeaf \<Rightarrow> nat \<Rightarrow> str list" where
  "all_slots lf 0 = []"
| "all_slots lf (Suc slot) =
     (case slots lf ! slot of
        None \<Rightarrow> all_slots lf slot
      | Some kv \<Rightarrow>
          if KVSlot_hash kv = 0 then all_slots lf slot
          else bytes_at (KVSlot_key kv) (get_ks kv) # all_slots lf slot)"

fun all_walk :: "pool \<Rightarrow> nat \<Rightarrow> str list" where
  "all_walk pm 0 = []"
| "all_walk pm (Suc a) = all_slots (heap pm ! a) LEAF_KEYS @ all_walk pm a"

definition all :: "tree3 \<Rightarrow> (status \<times> str list) \<times> tree3" where
  "all s = ((OK, all_walk (pmpool s) (length (heap (pmpool s)))), s)"

fun each_slots :: "KVLeaf \<Rightarrow> nat \<Rightarrow> (str \<times> str) list" where
  "each_slots lf 0 = []"
| "each_slots lf (Suc slot) =
     (case slots lf ! slot of
        None \<Rightarrow> each_slots lf slot
      | Some kv \<Rightarrow>
          if KVSlot_hash kv = 0 then each_slots lf slot
          else (bytes_at (KVSlot_key kv) (get_ks kv), bytes_at (KVSlot_val kv) (get_vs kv))
                 # each_slots lf slot)"

fun each_walk :: "pool \<Rightarrow> nat \<Rightarrow> (str \<times> str) list" where
  "each_walk pm 0 = []"
| "each_walk pm (Suc a) = each_slots (heap pm ! a) LEAF_KEYS @ each_walk pm a"

definition each :: "tree3 \<Rightarrow> (status \<times> (str \<times> str) list) \<times> tree3" where
  "each s = ((OK, each_walk (pmpool s) (length (heap (pmpool s)))), s)"

subsection \<open>Filling slots\<close>

text \<open>
  A function that takes a \<open>KVLeafNode *\<close> takes the node and returns it as it leaves it; the
  caller stores it back through its pointer. \<open>LeafFillSpecificSlot\<close> writes the persistent
  slot first (which may throw) and the volatile mirror afterwards.
\<close>

definition LeafFillSpecificSlot ::
  "KVNode \<Rightarrow> byte \<Rightarrow> str \<Rightarrow> str \<Rightarrow> nat \<Rightarrow> pool \<Rightarrow> KVNode \<times> pm_error option \<times> pool" where
  "LeafFillSpecificSlot leafnode hash key value slot pm =
     (let lf = heap pm ! leaf leafnode
      in case KVSlot_set hash key value (slots lf ! slot, avail pm) of
           Inl e \<Rightarrow> (leafnode, Some e, pm)
         | Inr (kv, av) \<Rightarrow>
             (KVLeafNode ((hashes leafnode)[slot := hash]) ((keys leafnode)[slot := key])
                (leaf leafnode),
              None,
              pm\<lparr>heap := (heap pm)[leaf leafnode := lf\<lparr>slots := (slots lf)[slot := kv]\<rparr>],
                 avail := av\<rparr>))"

fun LeafFillEmptySlot_scan :: "KVNode \<Rightarrow> nat \<Rightarrow> nat option" where
  "LeafFillEmptySlot_scan leafnode 0 = None"
| "LeafFillEmptySlot_scan leafnode (Suc slot) =
     (if hashes leafnode ! slot = 0 then Some slot else LeafFillEmptySlot_scan leafnode slot)"

definition LeafFillEmptySlot ::
  "KVNode \<Rightarrow> byte \<Rightarrow> str \<Rightarrow> str \<Rightarrow> pool \<Rightarrow> KVNode \<times> pm_error option \<times> pool" where
  "LeafFillEmptySlot leafnode hash key value pm =
     (case LeafFillEmptySlot_scan leafnode LEAF_KEYS of
        Some slot \<Rightarrow> LeafFillSpecificSlot leafnode hash key value slot pm
      | None \<Rightarrow> (leafnode, None, pm))"

text \<open>
  The scan of \<open>LeafFillSlotForKey\<close>: \<open>(last_empty_slot, key_match_slot)\<close>, with \<open>None\<close> for
  \<open>-1\<close>.
\<close>

fun LeafFillSlotForKey_scan ::
  "KVNode \<Rightarrow> byte \<Rightarrow> str \<Rightarrow> nat \<Rightarrow> nat option \<Rightarrow> nat option \<times> nat option" where
  "LeafFillSlotForKey_scan leafnode hash key 0 last_empty_slot = (last_empty_slot, None)"
| "LeafFillSlotForKey_scan leafnode hash key (Suc slot) last_empty_slot =
     (let slot_hash = hashes leafnode ! slot
      in if slot_hash = 0
         then LeafFillSlotForKey_scan leafnode hash key slot (Some slot)
         else if slot_hash = hash \<and> compare (keys leafnode ! slot) key = 0
         then (last_empty_slot, Some slot)
         else LeafFillSlotForKey_scan leafnode hash key slot last_empty_slot)"

definition LeafFillSlotForKey ::
  "KVNode \<Rightarrow> byte \<Rightarrow> str \<Rightarrow> str \<Rightarrow> pool \<Rightarrow> (KVNode \<times> bool) \<times> pm_error option \<times> pool" where
  "LeafFillSlotForKey leafnode hash key value pm =
     (case LeafFillSlotForKey_scan leafnode hash key LEAF_KEYS None of
        (last_empty_slot, key_match_slot) \<Rightarrow>
          (case (case key_match_slot of Some m \<Rightarrow> Some m | None \<Rightarrow> last_empty_slot) of
             Some slot \<Rightarrow>
               (case transaction_run pm (LeafFillSpecificSlot leafnode hash key value slot) of
                  (leafnode', e, pm') \<Rightarrow> ((leafnode', True), e, pm'))
           | None \<Rightarrow> ((leafnode, False), None, pm)))"

subsection \<open>Splitting a full leaf\<close>

text \<open>
  The first statements of both transactions that need a persistent leaf: take the last
  preallocated one, or allocate one and link it at the head of the list. The result is the
  vector \<open>leaves_prealloc\<close> afterwards and the leaf (or the exception).
\<close>

definition attach_leaf :: "nat list \<Rightarrow> pool \<Rightarrow> nat list \<times> (pm_error + nat \<times> pool)" where
  "attach_leaf prealloc pm =
     (if prealloc \<noteq> [] then (butlast prealloc, Inr (last prealloc, pm))
      else (prealloc, make_persistent_KVLeaf pm))"

text \<open>\<open>new_leaf->slots[slot].swap(leafnode->leaf->slots[slot])\<close>\<close>

definition swap_slots :: "nat \<Rightarrow> nat \<Rightarrow> nat \<Rightarrow> pool \<Rightarrow> pool" where
  "swap_slots new_leaf old_leaf slot pm =
     (let x = slots (heap pm ! new_leaf) ! slot;
          y = slots (heap pm ! old_leaf) ! slot;
          h1 = (heap pm)[new_leaf := (heap pm ! new_leaf)\<lparr>slots := (slots (heap pm ! new_leaf))[slot := y]\<rparr>];
          h2 = h1[old_leaf := (h1 ! old_leaf)\<lparr>slots := (slots (h1 ! old_leaf))[slot := x]\<rparr>]
      in pm\<lparr>heap := h2\<rparr>)"

text \<open>The loop of \<open>LeafSplitFull\<close> that moves the slots above the split key.\<close>

fun LeafSplitFull_move ::
  "str \<Rightarrow> nat \<Rightarrow> KVNode \<times> KVNode \<times> pool \<Rightarrow> KVNode \<times> KVNode \<times> pool" where
  "LeafSplitFull_move split_key 0 st = st"
| "LeafSplitFull_move split_key (Suc slot) (leafnode, new_leafnode, pm) =
     (if compare (keys leafnode ! slot) split_key > 0
      then LeafSplitFull_move split_key slot
             (KVLeafNode ((hashes leafnode)[slot := 0]) ((keys leafnode)[slot := []])
                (leaf leafnode),
              KVLeafNode ((hashes new_leafnode)[slot := hashes leafnode ! slot])
                ((keys new_leafnode)[slot := keys leafnode ! slot]) (leaf new_leafnode),
              swap_slots (leaf new_leafnode) (leaf leafnode) slot pm)
      else LeafSplitFull_move split_key slot (leafnode, new_leafnode, pm))"

text \<open>
  \<open>std::sort\<close> with the comparison \<open>lhs.compare(rhs) < 0\<close> yields the keys in ascending
  lexicographic order; \<open>sort\<close> does so for the order of byte lists, which is the order
  \<open>compare\<close> decides.
\<close>

definition LeafSplitFull_split_key :: "KVNode \<Rightarrow> str \<Rightarrow> str" where
  "LeafSplitFull_split_key leafnode key = sort (keys leafnode @ [key]) ! LEAF_KEYS_MIDPOINT"

text \<open>
  The body of the transaction of \<open>LeafSplitFull\<close>. Its volatile result is
  \<open>leaves_prealloc\<close>, the leaf node being split and the new leaf node, as the body left
  them.
\<close>

definition LeafSplitFull_body ::
  "nat list \<Rightarrow> KVNode \<Rightarrow> str \<Rightarrow> byte \<Rightarrow> str \<Rightarrow> str \<Rightarrow> pool
     \<Rightarrow> (nat list \<times> KVNode \<times> KVNode option) \<times> pm_error option \<times> pool" where
  "LeafSplitFull_body prealloc leafnode split_key hash key value pm =
     (case attach_leaf prealloc pm of
        (prealloc', Inl e) \<Rightarrow> ((prealloc', leafnode, None), Some e, pm)
      | (prealloc', Inr (new_leaf, pm1)) \<Rightarrow>
          (case LeafSplitFull_move split_key LEAF_KEYS (leafnode, new_KVLeafNode new_leaf, pm1) of
             (leafnode1, new_leafnode1, pm2) \<Rightarrow>
               if compare key split_key > 0
               then (case LeafFillEmptySlot new_leafnode1 hash key value pm2 of
                       (new_leafnode2, e, pm3) \<Rightarrow>
                         ((prealloc', leafnode1, Some new_leafnode2), e, pm3))
               else (case LeafFillEmptySlot leafnode1 hash key value pm2 of
                       (leafnode2, e, pm3) \<Rightarrow>
                         ((prealloc', leafnode2, Some new_leafnode1), e, pm3))))"

subsection \<open>InnerUpdateAfterSplit\<close>

text \<open>The loop that finds the position where \<open>split_key\<close> is inserted.\<close>

function InnerUpdateAfterSplit_idx :: "KVNode \<Rightarrow> str \<Rightarrow> nat \<Rightarrow> nat" where
  "InnerUpdateAfterSplit_idx inner split_key idx =
     (if idx < keycount inner \<and> compare (keys inner ! idx) split_key \<le> 0
      then InnerUpdateAfterSplit_idx inner split_key (idx + 1)
      else idx)"
  by pat_completeness auto
termination
  by (relation "measure (\<lambda>(inner, split_key, idx). keycount inner - idx)") auto

declare InnerUpdateAfterSplit_idx.simps [simp del]

text \<open>
  \<open>InnerUpdateAfterSplit(node, new_node, split_key)\<close> on the tree below \<open>tree_top\<close>.
  \<open>InnerUpdateAfterSplit_insert\<close> is the block that inserts into the parent: the two loops
  that shift keys and children one place up and the two assignments that follow put
  \<open>split_key\<close> at \<open>idx\<close> and \<open>new_node\<close> at \<open>idx + 1\<close>. \<open>InnerUpdateAfterSplit_halves\<close> is the
  split of an inner node with \<open>INNER_KEYS + 1\<close> keys: the node as it stays, the new inner node
  \<open>ni\<close> with the entries from \<open>INNER_KEYS_UPPER\<close> on, and the key at the midpoint. The result
  of \<open>InnerUpdateAfterSplit\<close> is the new \<open>tree_top\<close> and the pointers to \<open>node\<close> and to
  \<open>new_node\<close> in it (in the source the raw pointers stay valid while the nodes move; a child
  at index \<open>i\<close> of a node that is split is found at \<open>moved_child i\<close>). \<open>None\<close>:
  \<open>node->parent\<close> does not point to an inner node.
\<close>


definition InnerUpdateAfterSplit_insert :: "KVNode \<Rightarrow> KVNode \<Rightarrow> str \<Rightarrow> nat \<times> KVNode" where
  "InnerUpdateAfterSplit_insert inner new_node split_key =
     (let idx = InnerUpdateAfterSplit_idx inner split_key 0
      in (idx,
          KVInnerNode (keycount inner + 1)
            (take idx (keys inner) @ [split_key] @ drop idx (keys inner))
            (take (idx + 1) (children inner) @ [new_node] @ drop (idx + 1) (children inner))))"

definition InnerUpdateAfterSplit_halves :: "KVNode \<Rightarrow> KVNode \<times> KVNode \<times> str" where
  "InnerUpdateAfterSplit_halves inner =
     (KVInnerNode INNER_KEYS_MIDPOINT
        (take INNER_KEYS_MIDPOINT (keys inner))
        (take (INNER_KEYS_MIDPOINT + 1) (children inner)),
      KVInnerNode INNER_KEYS_MIDPOINT
        (take INNER_KEYS_MIDPOINT (drop INNER_KEYS_UPPER (keys inner)))
        (take (INNER_KEYS_MIDPOINT + 1) (drop INNER_KEYS_UPPER (children inner))),
      keys inner ! INNER_KEYS_MIDPOINT)"

definition moved_child :: "nat \<Rightarrow> nat list \<Rightarrow> nat list \<Rightarrow> nat list" where
  "moved_child i pinner pni =
     (if i < INNER_KEYS_UPPER then pinner @ [i] else pni @ [i - INNER_KEYS_UPPER])"

function InnerUpdateAfterSplit ::
  "KVNode \<Rightarrow> nat list \<Rightarrow> KVNode \<Rightarrow> str \<Rightarrow> (KVNode \<times> nat list \<times> nat list) option" where
  "InnerUpdateAfterSplit ttop node new_node split_key =
     (if node = [] then Some (KVInnerNode 1 [split_key] [ttop, new_node], [0], [1])
      else
        (case node_at ttop (butlast node) of
           None \<Rightarrow> None
         | Some inner \<Rightarrow>
             if is_leaf inner then None
             else
               (case InnerUpdateAfterSplit_insert inner new_node split_key of
                  (idx, inner1) \<Rightarrow>
                    if keycount inner1 \<le> INNER_KEYS
                    then Some (update_at ttop (butlast node) inner1,
                               butlast node @ [if last node \<le> idx then last node else last node + 1],
                               butlast node @ [idx + 1])
                    else
                      (case InnerUpdateAfterSplit_halves inner1 of
                         (inner2, ni, new_split_key) \<Rightarrow>
                           (case InnerUpdateAfterSplit (update_at ttop (butlast node) inner2)
                                   (butlast node) ni new_split_key of
                              None \<Rightarrow> None
                            | Some (ttop', pinner, pni) \<Rightarrow>
                                Some (ttop',
                                      moved_child (if last node \<le> idx then last node else last node + 1) pinner pni,
                                      moved_child (idx + 1) pinner pni))))))"
  by pat_completeness auto
termination
  by (relation "measure (\<lambda>(ttop, node, new_node, split_key). length node)") auto

declare InnerUpdateAfterSplit.simps [simp del]

definition LeafSplitFull ::
  "nat list \<Rightarrow> byte \<Rightarrow> str \<Rightarrow> str \<Rightarrow> tree3 \<Rightarrow> (pm_error option \<times> tree3) option" where
  "LeafSplitFull p hash key value s =
     (case deref s p of
        None \<Rightarrow> None
      | Some leafnode \<Rightarrow>
          (let split_key = LeafSplitFull_split_key leafnode key
           in case transaction_run (pmpool s)
                     (LeafSplitFull_body (leaves_prealloc s) leafnode split_key hash key value) of
                ((prealloc', leafnode', new_leafnode), Some e, pm') \<Rightarrow>
                  Some (Some e, (store s p leafnode')\<lparr>leaves_prealloc := prealloc', pmpool := pm'\<rparr>)
              | ((prealloc', leafnode', None), None, pm') \<Rightarrow> None
              | ((prealloc', leafnode', Some new_leafnode), None, pm') \<Rightarrow>
                  (case tree_top (store s p leafnode') of
                     None \<Rightarrow> None
                   | Some ttop \<Rightarrow>
                       (case InnerUpdateAfterSplit ttop p new_leafnode split_key of
                          None \<Rightarrow> None
                        | Some (ttop', pnode, pnew) \<Rightarrow>
                            Some (None, s\<lparr>leaves_prealloc := prealloc', pmpool := pm',
                                          tree_top := Some ttop'\<rparr>)))))"

subsection \<open>put and remove\<close>

text \<open>
  The transaction of \<open>put\<close> for an empty tree. Its volatile result is \<open>leaves_prealloc\<close> and
  the new leaf node.
\<close>

definition put_body ::
  "nat list \<Rightarrow> byte \<Rightarrow> str \<Rightarrow> str \<Rightarrow> pool
     \<Rightarrow> (nat list \<times> KVNode option) \<times> pm_error option \<times> pool" where
  "put_body prealloc hash key value pm =
     (case attach_leaf prealloc pm of
        (prealloc', Inl e) \<Rightarrow> ((prealloc', None), Some e, pm)
      | (prealloc', Inr (new_leaf, pm1)) \<Rightarrow>
          (case LeafFillSpecificSlot (new_KVLeafNode new_leaf) hash key value 0 pm1 of
             (new_node, e, pm2) \<Rightarrow> ((prealloc', Some new_node), e, pm2)))"

text \<open>
  \<open>put\<close>: every exception that leaves a transaction is caught and turned into \<open>FAILED\<close>.
\<close>

definition put :: "str \<Rightarrow> str \<Rightarrow> tree3 \<Rightarrow> (status \<times> tree3) option" where
  "put key value s =
     (case PearsonHash key of
        None \<Rightarrow> None
      | Some hash \<Rightarrow>
          (case LeafSearch (tree_top s) key of
             None \<Rightarrow> None
           | Some None \<Rightarrow>
               (case transaction_run (pmpool s) (put_body (leaves_prealloc s) hash key value) of
                  ((prealloc', new_node), Some e, pm') \<Rightarrow>
                    Some (FAILED, s\<lparr>leaves_prealloc := prealloc', pmpool := pm'\<rparr>)
                | ((prealloc', new_node), None, pm') \<Rightarrow>
                    Some (OK, s\<lparr>leaves_prealloc := prealloc', pmpool := pm',
                                 tree_top := new_node\<rparr>))
           | Some (Some p) \<Rightarrow>
               (case deref s p of
                  None \<Rightarrow> None
                | Some leafnode \<Rightarrow>
                    (case LeafFillSlotForKey leafnode hash key value (pmpool s) of
                       ((leafnode', filled), Some e, pm') \<Rightarrow>
                         Some (FAILED, (store s p leafnode')\<lparr>pmpool := pm'\<rparr>)
                     | ((leafnode', True), None, pm') \<Rightarrow>
                         Some (OK, (store s p leafnode')\<lparr>pmpool := pm'\<rparr>)
                     | ((leafnode', False), None, pm') \<Rightarrow>
                         (case LeafSplitFull p hash key value s of
                            None \<Rightarrow> None
                          | Some (Some e, s') \<Rightarrow> Some (FAILED, s')
                          | Some (None, s') \<Rightarrow> Some (OK, s'))))))"

text \<open>The transaction of \<open>remove\<close>: \<open>leaf->slots[slot].get_rw().clear()\<close>.\<close>

definition remove_body :: "nat \<Rightarrow> nat \<Rightarrow> pool \<Rightarrow> unit \<times> pm_error option \<times> pool" where
  "remove_body a slot pm =
     (let lf = heap pm ! a
      in case KVSlot_clear (slots lf ! slot, avail pm) of
           (kv, av) \<Rightarrow>
             ((), None, pm\<lparr>heap := (heap pm)[a := lf\<lparr>slots := (slots lf)[slot := kv]\<rparr>],
                           avail := av\<rparr>))"

definition remove :: "str \<Rightarrow> tree3 \<Rightarrow> (status \<times> tree3) option" where
  "remove key s =
     (case LeafSearch (tree_top s) key of
        None \<Rightarrow> None
      | Some None \<Rightarrow> Some (NOT_FOUND, s)
      | Some (Some p) \<Rightarrow>
          (case deref s p of
             None \<Rightarrow> None
           | Some leafnode \<Rightarrow>
               (case PearsonHash key of
                  None \<Rightarrow> None
                | Some hash \<Rightarrow>
                    (case match_slot leafnode hash key LEAF_KEYS of
                       None \<Rightarrow> Some (NOT_FOUND, s)
                     | Some slot \<Rightarrow>
                         (case transaction_run (pmpool s) (remove_body (leaf leafnode) slot) of
                            (u, Some e, pm') \<Rightarrow>
                              Some (FAILED,
                                    (store s p (KVLeafNode ((hashes leafnode)[slot := 0])
                                                  ((keys leafnode)[slot := []]) (leaf leafnode)))
                                      \<lparr>pmpool := pm'\<rparr>)
                          | (u, None, pm') \<Rightarrow>
                              Some (OK,
                                    (store s p (KVLeafNode ((hashes leafnode)[slot := 0])
                                                  ((keys leafnode)[slot := []]) (leaf leafnode)))
                                      \<lparr>pmpool := pm'\<rparr>))))))"

subsection \<open>Recovery\<close>

text \<open>
  The loop of \<open>Recover\<close> over the slots of one persistent leaf: the leaf node being built,
  \<open>empty_leaf\<close> and \<open>max_key\<close>.
\<close>

fun Recover_slots :: "KVLeaf \<Rightarrow> nat \<Rightarrow> KVNode \<times> bool \<times> str \<Rightarrow> KVNode \<times> bool \<times> str" where
  "Recover_slots lf 0 st = st"
| "Recover_slots lf (Suc slot) (leafnode, empty_leaf, max_key) =
     (case slots lf ! slot of
        None \<Rightarrow> Recover_slots lf slot (leafnode, empty_leaf, max_key)
      | Some kv \<Rightarrow>
          if KVSlot_hash kv = 0
          then Recover_slots lf slot
                 (KVLeafNode ((hashes leafnode)[slot := KVSlot_hash kv]) (keys leafnode)
                    (leaf leafnode),
                  empty_leaf, max_key)
          else Recover_slots lf slot
                 (KVLeafNode ((hashes leafnode)[slot := KVSlot_hash kv])
                    ((keys leafnode)[slot := bytes_at (KVSlot_key kv) (get_ks kv)])
                    (leaf leafnode),
                  False,
                  if empty_leaf then bytes_at (KVSlot_key kv) (get_ks kv)
                  else if compare max_key (bytes_at (KVSlot_key kv) (get_ks kv)) < 0
                  then bytes_at (KVSlot_key kv) (get_ks kv)
                  else max_key))"

text \<open>
  The walk over the persistent leaves: the list \<open>leaves\<close> of recovered leaf nodes with their
  highest key, and \<open>leaves_prealloc\<close>.
\<close>

fun Recover_walk ::
  "pool \<Rightarrow> nat \<Rightarrow> (KVNode \<times> str) list \<times> nat list \<Rightarrow> (KVNode \<times> str) list \<times> nat list" where
  "Recover_walk pm 0 acc = acc"
| "Recover_walk pm (Suc a) (leaves, prealloc) =
     (case Recover_slots (heap pm ! a) LEAF_KEYS (new_KVLeafNode a, True, []) of
        (leafnode, empty_leaf, max_key) \<Rightarrow>
          if empty_leaf then Recover_walk pm a (leaves, prealloc @ [a])
          else Recover_walk pm a (leaves @ [(leafnode, max_key)], prealloc))"

text \<open>
  The loop that hangs the sorted leaves below inner nodes: \<open>tree_top\<close>, the pointer
  \<open>prevnode\<close> and \<open>max_key\<close>.
\<close>

fun Recover_build :: "(KVNode \<times> str) list \<Rightarrow> KVNode \<times> nat list \<times> str \<Rightarrow> KVNode option" where
  "Recover_build [] (ttop, prevnode, max_key) = Some ttop"
| "Recover_build ((nextnode, next_max_key) # leaves) (ttop, prevnode, max_key) =
     (case InnerUpdateAfterSplit ttop prevnode nextnode max_key of
        None \<Rightarrow> None
      | Some (ttop', pprev, pnext) \<Rightarrow> Recover_build leaves (ttop', pnext, next_max_key))"

text \<open>
  \<open>std::list::sort\<close> is a stable sort by \<open>max_key\<close>, as \<open>sort_key\<close> is.
\<close>

definition Recover :: "tree3 \<Rightarrow> tree3 option" where
  "Recover s =
     (case Recover_walk (pmpool s) (length (heap (pmpool s))) ([], leaves_prealloc s) of
        (leaves, prealloc) \<Rightarrow>
          (case sort_key snd leaves of
             [] \<Rightarrow> Some (s\<lparr>leaves_prealloc := prealloc, tree_top := None\<rparr>)
           | (leafnode, max_key) # rest \<Rightarrow>
               map_option (\<lambda>ttop. s\<lparr>leaves_prealloc := prealloc, tree_top := Some ttop\<rparr>)
                 (Recover_build rest (leafnode, [], max_key))))"

text \<open>
  The constructor on a pool that was created (empty, with the given number of free bytes) or opened, and
  the destructor, which leaves the pool behind.
\<close>

definition pool_create :: "nat \<Rightarrow> pool" where
  "pool_create n = \<lparr>heap = [], avail = n\<rparr>"

definition tree3_open :: "pool \<Rightarrow> tree3 option" where
  "tree3_open pm = Recover \<lparr>leaves_prealloc = [], pmpool = pm, tree_top = None\<rparr>"

definition tree3_close :: "tree3 \<Rightarrow> pool" where
  "tree3_close s = pmpool s"

section \<open>Definitions used to state the properties\<close>

text \<open>
  The layout of a payload buffer in the words of the specification: key size, value size,
  hash, the key bytes, a zero byte, the value bytes, a zero byte.
\<close>

definition payload :: "byte \<Rightarrow> str \<Rightarrow> str \<Rightarrow> byte list" where
  "payload hash key value =
     le32 (word_of_nat (length key)) @ le32 (word_of_nat (length value)) @ [hash]
       @ key @ [0] @ value @ [0]"

text \<open>
  The index search in the words of the specification: at an inner node, descend to the child
  at the least \<open>i\<close> with \<open>key \<le> r[i]\<close>, and to the last child when there is none.
\<close>

function LeafSearch_spec :: "str \<Rightarrow> KVNode \<Rightarrow> nat list option" where
  "LeafSearch_spec key node =
     (if is_leaf node then Some []
      else
        (case find (\<lambda>i. key \<le> keys node ! i) [0..<keycount node] of
           Some i \<Rightarrow>
             if i < length (children node)
             then map_option ((#) i) (LeafSearch_spec key (children node ! i))
             else None
         | None \<Rightarrow>
             if keycount node < length (children node)
             then map_option ((#) (keycount node))
                    (LeafSearch_spec key (children node ! keycount node))
             else None))"
  by pat_completeness auto
termination
  by (relation "measure (\<lambda>(key, node). size node)") (simp_all add: size_child)

declare LeafSearch_spec.simps [simp del]

fun wf_node :: "KVNode \<Rightarrow> bool" where
  "wf_node (KVLeafNode hs ks a) = True"
| "wf_node (KVInnerNode n ks cs) =
     (length ks = n \<and> length cs = n + 1 \<and> (\<forall>c \<in> set cs. wf_node c))"

text \<open>A store holding the single mapping from the key \<open>[1]\<close> to the value \<open>[7, 8]\<close>.\<close>

definition store_one :: tree3 where
  "store_one =
     \<lparr>leaves_prealloc = [],
      pmpool = \<lparr>heap = [\<lparr>slots = Some (payload 251 [1] [7, 8]) # replicate 47 None\<rparr>],
                avail = 1000\<rparr>,
      tree_top = Some (KVLeafNode (251 # replicate 47 0) ([1] # replicate 47 []) 0)\<rparr>"

text \<open>An index with one inner node over two leaf nodes.\<close>

definition two_leaves :: KVNode where
  "two_leaves =
     KVInnerNode 1 [[24]]
       [KVLeafNode (replicate 48 0) (replicate 48 []) 0,
        KVLeafNode (replicate 48 0) (replicate 48 []) 1]"

section \<open>String comparison\<close>

lemma compare_less_iff: "compare a b < 0 \<longleftrightarrow> a < b"
  by (induction a b rule: compare.induct) auto

lemma compare_eq_iff: "compare a b = 0 \<longleftrightarrow> a = b"
  by (induction a b rule: compare.induct) auto

lemma compare_le_iff: "compare a b \<le> 0 \<longleftrightarrow> a \<le> b"
  by (induction a b rule: compare.induct) auto

lemma compare_greater_iff: "0 < compare a b \<longleftrightarrow> b < a"
  by (induction a b rule: compare.induct) auto

section \<open>Properties of the Pearson hash\<close>

lemma length_PEARSON_LOOKUP_TABLE: "length PEARSON_LOOKUP_TABLE = 256"
  by (simp add: PEARSON_LOOKUP_TABLE_def)

lemma sint_low:
  assumes "b < 0x80"
  shows "sint (b :: byte) = uint b"
proof -
  have "uint b < 2 ^ 7"
    using assms by (simp add: word_less_def)
  moreover have "- (2 ^ 7) \<le> uint b"
    by (rule order_trans [of _ 0]) simp_all
  ultimately have "signed_take_bit 7 (uint b) = uint b"
    by (rule signed_take_bit_int_eq_self [rotated])
  then show ?thesis
    by (simp add: sint_uint)
qed

lemma table_at_low:
  assumes "b < 0x80"
  shows "table_at (uint (h :: byte) XOR sint (b :: byte)) = Some (PEARSON_LOOKUP_TABLE ! unat (h XOR b))"
proof -
  have "uint h XOR sint b = uint (h XOR b)"
    using assms by (simp add: sint_low uint_xor)
  moreover have "0 \<le> uint (h XOR b)" "uint (h XOR b) < 256"
    using uint_bounded [of "h XOR b"] by simp_all
  ultimately show ?thesis
    by (simp add: table_at_def)
qed

lemma PearsonHash_loop_low:
  assumes "\<forall>b \<in> set data. b < 0x80" and "i \<le> length data"
  shows "PearsonHash_loop data i h =
           Some (fold (\<lambda>b h. PEARSON_LOOKUP_TABLE ! unat (h XOR b)) (rev (take i data)) h)"
  using assms(2)
proof (induction i arbitrary: h)
  case 0
  then show ?case by simp
next
  case (Suc i)
  then have lt: "i < length data" by simp
  then have low: "data ! i < 0x80" using assms(1) by simp
  have tk: "take (Suc i) data = take i data @ [data ! i]"
    using lt by (simp add: take_Suc_conv_app_nth)
  show ?case
    using Suc.IH [of "PEARSON_LOOKUP_TABLE ! unat (h XOR data ! i)"] lt
    by (simp add: table_at_low [OF low] tk)
qed

lemma PearsonHash_low:
  "\<forall>b \<in> set data. b < 0x80 \<Longrightarrow> PearsonHash data = Some (pearson_spec data)"
  by (simp add: PearsonHash_def pearson_spec_def PearsonHash_loop_low Let_def)

lemma PearsonHash_nonzero: "PearsonHash data = Some h \<Longrightarrow> h \<noteq> 0"
  by (auto simp: PearsonHash_def split: option.splits if_splits)


text \<open>
  C7. The Pearson hash is meant to be the fold \<open>h = TABLE[h ^ b]\<close> over the bytes in reverse
  order, started at the length and with 0 mapped to 1, for every byte string. For the key
  that consists of the single byte \<open>0x80\<close> the index \<open>hash ^ data[--i]\<close> is \<open>1 ^ -128 = -127\<close>:
  the read leaves the table and the function has no defined result, where the fold of the
  specification gives 114. (For keys of bytes below \<open>0x80\<close> the function is that fold,
  \<open>PearsonHash_low\<close>, and a result is never 0, \<open>PearsonHash_nonzero\<close>.)
\<close>

theorem PearsonHash_high_byte:
  "PearsonHash [0x80] = None \<and> pearson_spec [0x80] = 114"
  by (simp add: PearsonHash_def pearson_spec_def table_at_def PEARSON_LOOKUP_TABLE_def)

section \<open>Properties of the slot payload\<close>

lemma length_le32: "length (le32 w) = 4"
  by (simp add: le32_def)

lemma word32_of_bytes:
  "ucast (ucast w :: byte) OR push_bit 8 (ucast (ucast (drop_bit 8 w) :: byte))
     OR push_bit 16 (ucast (ucast (drop_bit 16 w) :: byte))
     OR push_bit 24 (ucast (ucast (drop_bit 24 w) :: byte)) = (w :: 32 word)"
proof (rule bit_word_eqI)
  fix n :: nat
  assume n: "n < LENGTH(32)"
  consider "n < 8" | "8 \<le> n" "n < 16" | "16 \<le> n" "n < 24" | "24 \<le> n" "n < 32"
    using n by fastforce
  then show "bit (ucast (ucast w :: byte) OR push_bit 8 (ucast (ucast (drop_bit 8 w) :: byte))
     OR push_bit 16 (ucast (ucast (drop_bit 16 w) :: byte))
     OR push_bit 24 (ucast (ucast (drop_bit 24 w) :: byte)) :: 32 word) n = bit w n"
    by cases (auto simp: bit_simps)
qed

lemma rd32_le32: "length a = off \<Longrightarrow> rd32 (a @ le32 w @ r) off = w"
  by (simp add: rd32_def le32_def nth_append word32_of_bytes)

lemma memcpy_append:
  "length a = off \<Longrightarrow> length b = length src \<Longrightarrow> memcpy (a @ b @ c) off src = a @ src @ c"
  by (simp add: memcpy_def)

lemma KVSlot_set_buffer:
  fixes key "value" :: str
  defines "p \<equiv> replicate (length key + length value + 2 + 4 + 4 + 1) (0 :: byte)"
  shows "memcpy (memcpy (set_vs_direct (set_ks_direct (set_ph_direct p hash)
            (word_of_nat (length key))) (word_of_nat (length value))) (4 + 4 + 1) key)
            (4 + 4 + 1 + (length key + 1)) value
         = payload hash key value"
proof -
  have p: "p = replicate 4 0 @ replicate 4 0 @ [0] @ replicate (length key) 0 @ [0]
                 @ replicate (length value) 0 @ [0]"
  proof -
    have "length key + length value + 2 + 4 + 4 + 1
            = 4 + (4 + (1 + (length key + (1 + (length value + 1)))))"
      by simp
    then show ?thesis
      unfolding p_def by (simp only: replicate_add) simp
  qed
  have p1: "set_ph_direct p hash = replicate 4 0 @ replicate 4 0 @ [hash]
                 @ replicate (length key) 0 @ [0] @ replicate (length value) 0 @ [0]"
    unfolding p set_ph_direct_def by (simp add: list_update_append)
  have p2: "set_ks_direct (set_ph_direct p hash) (word_of_nat (length key)) =
              le32 (word_of_nat (length key)) @ replicate 4 0 @ [hash]
                 @ replicate (length key) 0 @ [0] @ replicate (length value) 0 @ [0]"
    unfolding p1 set_ks_direct_def
    using memcpy_append [of "[]" 0 "replicate 4 0" "le32 (word_of_nat (length key))"]
    by (simp add: length_le32)
  have p3: "set_vs_direct (set_ks_direct (set_ph_direct p hash) (word_of_nat (length key)))
              (word_of_nat (length value)) =
              le32 (word_of_nat (length key)) @ le32 (word_of_nat (length value)) @ [hash]
                 @ replicate (length key) 0 @ [0] @ replicate (length value) 0 @ [0]"
    unfolding p2 set_vs_direct_def
    by (rule memcpy_append) (simp_all add: length_le32)
  have p4: "memcpy (set_vs_direct (set_ks_direct (set_ph_direct p hash) (word_of_nat (length key)))
              (word_of_nat (length value))) (4 + 4 + 1) key =
              (le32 (word_of_nat (length key)) @ le32 (word_of_nat (length value)) @ [hash])
                 @ key @ [0] @ replicate (length value) 0 @ [0]"
    unfolding p3
    using memcpy_append [of "le32 (word_of_nat (length key)) @ le32 (word_of_nat (length value)) @ [hash]"
        "4 + 4 + 1" "replicate (length key) 0" key "[0] @ replicate (length value) 0 @ [0]"]
    by (simp add: length_le32)
  show ?thesis
    unfolding p4 payload_def
    using memcpy_append [of "le32 (word_of_nat (length key)) @ le32 (word_of_nat (length value)) @ [hash] @ key @ [0]"
        "4 + 4 + 1 + (length key + 1)" "replicate (length value) 0" "value" "[0]"]
    by (simp add: length_le32)
qed

lemma length_payload: "length (payload hash key value) = length key + length value + 11"
  by (simp add: payload_def length_le32)

lemma KVSlot_set_eq:
  "KVSlot_set hash key value (kv, av) =
     (if length key + length value + 11 \<le> (case kv of Some p \<Rightarrow> av + length p | None \<Rightarrow> av)
      then Inr (Some (payload hash key value),
                (case kv of Some p \<Rightarrow> av + length p | None \<Rightarrow> av) - (length key + length value + 11))
      else Inl transaction_alloc_error)"
  using KVSlot_set_buffer [of key "value" hash]
  by (simp add: KVSlot_set_def make_persistent_chars_def Let_def ac_simps)

lemma get_ks_payload: "get_ks (payload hash key value) = word_of_nat (length key)"
  using rd32_le32 [of "[]" 0] by (simp add: get_ks_def payload_def)

lemma get_vs_payload: "get_vs (payload hash key value) = word_of_nat (length value)"
  unfolding get_vs_def payload_def
  by (rule rd32_le32) (simp add: length_le32)

lemma KVSlot_hash_payload: "KVSlot_hash (payload hash key value) = hash"
  by (simp add: KVSlot_hash_def get_ph_def payload_def nth_append length_le32)

lemma KVSlot_key_payload: "KVSlot_key (payload hash key value) = key @ [0] @ value @ [0]"
  by (simp add: KVSlot_key_def payload_def length_le32)

lemma KVSlot_val_payload:
  "length key < 2 ^ 32 \<Longrightarrow> KVSlot_val (payload hash key value) = value @ [0]"
  by (simp add: KVSlot_val_def get_ks_payload unat_of_nat take_bit_nat_eq_self) (simp add: payload_def length_le32)

lemma key_bytes_payload:
  "length key < 2 ^ 32 \<Longrightarrow>
   bytes_at (KVSlot_key (payload hash key value)) (get_ks (payload hash key value)) = key"
  by (simp add: bytes_at_def KVSlot_key_payload get_ks_payload unat_of_nat take_bit_nat_eq_self)

lemma val_bytes_payload:
  "length key < 2 ^ 32 \<Longrightarrow> length value < 2 ^ 32 \<Longrightarrow>
   bytes_at (KVSlot_val (payload hash key value)) (KVSlot_valsize (payload hash key value)) = value"
  by (simp add: bytes_at_def KVSlot_val_payload KVSlot_valsize_def get_vs_payload unat_of_nat take_bit_nat_eq_self)

text \<open>
  C5, as amended. The buffer that \<open>KVSlot::set\<close> writes for a key of size \<open>ks\<close> and a value of
  size \<open>vs\<close> has \<open>ks + vs + 11\<close> bytes: the key size at offset 0, the value size at offset 4,
  the hash at offset 8, the key at offset 9, a zero byte at \<open>9 + ks\<close>, the value at \<open>10 + ks\<close>
  and a zero byte at \<open>10 + ks + vs\<close>.
\<close>

theorem KVSlot_set_layout:
  assumes "KVSlot_set hash key value (kv, av) = Inr (Some p, av')"
  shows "length p = length key + length value + 11 \<and>
         p = payload hash key value \<and>
         get_ks p = word_of_nat (length key) \<and>
         get_vs p = word_of_nat (length value) \<and>
         p ! 8 = hash \<and>
         take (length key) (drop 9 p) = key \<and>
         p ! (9 + length key) = 0 \<and>
         take (length value) (drop (10 + length key) p) = value \<and>
         p ! (10 + length key + length value) = 0"
proof -
  from assms have p: "p = payload hash key value"
    by (simp add: KVSlot_set_eq split: if_splits)
  have "p ! 8 = hash" "take (length key) (drop 9 p) = key" "p ! (9 + length key) = 0"
    "take (length value) (drop (10 + length key) p) = value"
    "p ! (10 + length key + length value) = 0"
    unfolding p by (simp_all add: payload_def nth_append length_le32)
  then show ?thesis
    by (simp add: p length_payload get_ks_payload get_vs_payload)
qed

theorem KVSlot_set_layout_witness:
  "KVSlot_set 9 [1, 2, 3] [7] (None, 100)
     = Inr (Some [3, 0, 0, 0, 1, 0, 0, 0, 9, 1, 2, 3, 0, 7, 0], 85) \<and>
   length [3, 0, 0, 0, 1, 0, 0, 0, 9, 1, 2, 3, 0, 7, 0 :: byte] = 3 + 1 + 11"
proof -
  have h: "KVSlot_set 9 [1, 2, 3] [7] (None, 100)
             = Inr (Some [3, 0, 0, 0, 1, 0, 0, 0, 9, 1, 2, 3, 0, 7, 0], 85)"
    by (simp add: KVSlot_set_eq payload_def le32_def)
  from KVSlot_set_layout [OF h]
  have "length [3, 0, 0, 0, 1, 0, 0, 0, 9, 1, 2, 3, 0, 7, 0 :: byte]
          = length [1, 2, 3 :: byte] + length [7 :: byte] + 11"
    by (rule conjunct1)
  then show ?thesis
    using h by (simp only: list.size) simp
qed

text \<open>
  C5 as stated gives the buffer \<open>ks + vs + 10\<close> bytes. For the empty key and the empty value
  the buffer has 11 bytes.
\<close>

theorem KVSlot_set_size_counterexample:
  "KVSlot_set 1 [] [] (None, 11) = Inr (Some [0, 0, 0, 0, 0, 0, 0, 0, 1, 0, 0], 0) \<and>
   length [0, 0, 0, 0, 0, 0, 0, 0, 1, 0, 0 :: byte] \<noteq> length ([] :: str) + length ([] :: str) + 10"
  by (simp add: KVSlot_set_eq payload_def le32_def)

section \<open>Properties of the index search\<close>

lemma LeafSearch_for_find:
  "LeafSearch_for key inner idx =
     find (\<lambda>i. key \<le> keys inner ! i) [idx..<keycount inner]"
proof (induction key inner idx rule: LeafSearch_for.induct)
  case (1 key inner idx)
  show ?case
  proof (cases "idx < keycount inner")
    case True
    then show ?thesis
      using 1 by (subst LeafSearch_for.simps) (simp add: upt_conv_Cons compare_le_iff)
  next
    case False
    then show ?thesis
      by (subst LeafSearch_for.simps) simp
  qed
qed

lemma find_upt_less: "find P [a..<b] = Some i \<Longrightarrow> a \<le> i \<and> i < b \<and> P i"
  by (auto simp: find_Some_iff)

lemma LeafSearch_while_spec: "LeafSearch_while key node = LeafSearch_spec key node"
proof (induction key node rule: LeafSearch_while.induct)
  case (1 key node)
  show ?case
  proof (cases "is_leaf node")
    case True
    then show ?thesis
      by (subst LeafSearch_while.simps, subst LeafSearch_spec.simps) simp
  next
    case False
    show ?thesis
    proof (cases "find (\<lambda>i. key \<le> keys node ! i) [0..<keycount node]")
      case None
      with False 1 show ?thesis
        by (subst LeafSearch_while.simps, subst LeafSearch_spec.simps)
           (simp add: LeafSearch_for_find Let_def)
    next
      case (Some i)
      with False 1 show ?thesis
        by (subst LeafSearch_while.simps, subst LeafSearch_spec.simps)
           (simp add: LeafSearch_for_find)
    qed
  qed
qed

lemma LeafSearch_while_leaf:
  "LeafSearch_while key node = Some p \<Longrightarrow> \<exists>n. node_at node p = Some n \<and> is_leaf n"
proof (induction key node arbitrary: p rule: LeafSearch_while.induct)
  case (1 key node)
  show ?case
  proof (cases "is_leaf node")
    case True
    with 1(2) show ?thesis
      by (subst (asm) LeafSearch_while.simps) auto
  next
    case False
    define i where "i = (case LeafSearch_for key node 0 of Some idx \<Rightarrow> idx | None \<Rightarrow> keycount node)"
    from 1(2) False obtain q where
      i: "i < length (children node)" and q: "LeafSearch_while key (children node ! i) = Some q"
      and p: "p = i # q"
      by (subst (asm) LeafSearch_while.simps) (auto simp: i_def Let_def split: if_splits)
    from 1(1) [OF False i_def i q] obtain n where "node_at (children node ! i) q = Some n" "is_leaf n"
      by blast
    with False i p show ?thesis
      by (cases node) auto
  qed
qed

lemma LeafSearch_while_total:
  "wf_node node \<Longrightarrow> \<exists>p. LeafSearch_while key node = Some p"
proof (induction key node rule: LeafSearch_while.induct)
  case (1 key node)
  show ?case
  proof (cases "is_leaf node")
    case True
    then show ?thesis
      by (subst LeafSearch_while.simps) simp
  next
    case False
    define i where "i = (case LeafSearch_for key node 0 of Some idx \<Rightarrow> idx | None \<Rightarrow> keycount node)"
    have "i \<le> keycount node"
      by (auto simp: i_def LeafSearch_for_find split: option.splits dest: find_upt_less)
    with False "1.prems" have i: "i < length (children node)" and wf: "wf_node (children node ! i)"
      by (cases node; simp)+
    from 1(1) [OF False i_def i wf] obtain q where "LeafSearch_while key (children node ! i) = Some q" ..
    with False i show ?thesis
      by (subst LeafSearch_while.simps) (simp add: i_def [symmetric] Let_def)
  qed
qed


text \<open>
  C8. \<open>LeafSearch\<close> returns null for an empty tree. Otherwise it descends from \<open>tree_top\<close>
  as the specification says (\<open>LeafSearch_spec\<close>: at each inner node to the child at the least
  \<open>i\<close> with \<open>key \<le> r[i]\<close>, to \<open>children[keycount]\<close> when there is none); the pointer it
  returns leads to a leaf node, and it returns one whenever every inner node of the tree has
  \<open>keycount\<close> keys and \<open>keycount + 1\<close> children.
\<close>

theorem LeafSearch_descends:
  "LeafSearch None key = Some None \<and>
   LeafSearch (Some t) key = map_option Some (LeafSearch_spec key t) \<and>
   (\<forall>p. LeafSearch (Some t) key = Some (Some p) \<longrightarrow> (\<exists>n. node_at t p = Some n \<and> is_leaf n)) \<and>
   (wf_node t \<longrightarrow> (\<exists>p. LeafSearch (Some t) key = Some (Some p)))"
  using LeafSearch_while_leaf [of key t] LeafSearch_while_total [of t key]
  by (auto simp: LeafSearch_def LeafSearch_while_spec)

theorem LeafSearch_descends_witness:
  "wf_node two_leaves \<and>
   LeafSearch (Some two_leaves) [30] = Some (Some [1]) \<and>
   LeafSearch (Some two_leaves) [30] = map_option Some (LeafSearch_spec [30] two_leaves) \<and>
   (\<exists>n. node_at two_leaves [1] = Some n \<and> is_leaf n)"
proof -
  have wf: "wf_node two_leaves"
    by (simp add: two_leaves_def)
  have r: "LeafSearch (Some two_leaves) [30] = Some (Some [1])"
    by (simp add: two_leaves_def LeafSearch_def LeafSearch_while.simps LeafSearch_for.simps)
  from LeafSearch_descends [of "[30]" two_leaves] wf r show ?thesis
    by simp
qed

section \<open>The read-only operations\<close>

text \<open>
  C10. \<open>get\<close>, \<open>exists\<close>, \<open>count\<close>, \<open>all\<close> and \<open>each\<close> leave the whole state of the engine as it
  was: the pool with every leaf and payload, the preallocated leaves and the volatile tree.
\<close>

theorem read_only_operations:
  "(\<forall>r s'. get key s = Some (r, s') \<longrightarrow> s' = s) \<and>
   (\<forall>r s'. exists key s = Some (r, s') \<longrightarrow> s' = s) \<and>
   snd (count s) = s \<and> snd (all s) = s \<and> snd (each s) = s"
  by (auto simp: get_def exists_def count_def all_def each_def split: option.splits)

lemma PearsonHash_1: "PearsonHash [1] = Some 251"
  by (simp add: PearsonHash_def table_at_def PEARSON_LOOKUP_TABLE_def)

lemma get_store_one: "get [1] store_one = Some ((OK, [[7, 8]]), store_one)"
proof -
  have m: "match_slot (KVLeafNode (251 # replicate 47 0) ([1] # replicate 47 []) 0) 251 [1]
             LEAF_KEYS = Some 0"
    by (simp add: LEAF_KEYS_def eval_nat_numeral nth_Cons')
  show ?thesis
    by (simp add: get_def store_one_def LeafSearch_def LeafSearch_while.simps deref_def
          PearsonHash_1 m val_bytes_payload)
qed

theorem read_only_operations_witness:
  "get [1] store_one = Some ((OK, [[7, 8]]), store_one) \<and> store_one = store_one"
  using read_only_operations [of "[1]" store_one] get_store_one by simp

end
